theory Spec2Isabelle
  imports Main "HOL-Library.Word" "HOL-Library.Sublist"
begin

unbundle bit_operations_syntax

section \<open>The UDP-to-HTTPS DNS proxy of main.c\<close>

text \<open>
  The development follows \<^verbatim>\<open>src/main.c\<close>: the two structs \<^verbatim>\<open>app_state_t\<close> and
  \<^verbatim>\<open>request_t\<close>, the three callbacks \<^verbatim>\<open>https_resp_cb\<close>, \<^verbatim>\<open>dns_server_cb\<close> and
  \<^verbatim>\<open>dns_poll_cb\<close>, and the start-up sequence of \<^verbatim>\<open>main\<close>. A value of type \<open>string\<close>
  stands for the contents of a NUL-terminated C string (the bytes before the terminator).
\<close>

subsection \<open>Formatting: \<^verbatim>\<open>%d\<close>, \<^verbatim>\<open>snprintf\<close>, \<^verbatim>\<open>curl_escape\<close>, \<^verbatim>\<open>ares_inet_ntop\<close>\<close>

type_synonym u16 = "16 word"
type_synonym c_int = "32 word"
type_synonym octet = "8 word"

definition dec_digit :: "nat \<Rightarrow> char" where
  "dec_digit d = char_of (48 + d)"

fun dec_nat :: "nat \<Rightarrow> string" where
  "dec_nat n = (if n < 10 then [dec_digit n] else dec_nat (n div 10) @ [dec_digit (n mod 10)])"

declare dec_nat.simps [simp del]

text \<open>The conversion \<^verbatim>\<open>%d\<close> of printf on a C \<^verbatim>\<open>int\<close> (32 bits, two's complement).\<close>

definition fmt_d :: "c_int \<Rightarrow> string" where
  "fmt_d i = (if sint i < 0 then CHR ''-'' # dec_nat (nat (- sint i)) else dec_nat (nat (sint i)))"

text \<open>
  \<^verbatim>\<open>snprintf(buf, size, fmt, ...)\<close> stores at most \<open>size - 1\<close> characters of the formatted
  text and a terminating NUL; with a size of 0 it stores nothing. The argument \<open>s\<close> is the
  formatted text; the result is the C string left in the (zero-initialised) buffer.
\<close>

definition snprintf :: "nat \<Rightarrow> string \<Rightarrow> string" where
  "snprintf n s = take (n - 1) s"

text \<open>
  libcurl's \<^verbatim>\<open>curl_escape\<close> (a library call, not code of the proxy), after its
  documentation: every byte that is not an unreserved character of RFC 3986
  (\<^verbatim>\<open>A-Z a-z 0-9 - . _ ~\<close>) becomes \<^verbatim>\<open>%XX\<close> with two upper-case hexadecimal digits.
  The call is taken to return a string (it returns NULL only when out of memory).
\<close>

definition unreserved :: "char \<Rightarrow> bool" where
  "unreserved c = (let n = (of_char c :: nat) in
     (48 \<le> n \<and> n \<le> 57) \<or> (65 \<le> n \<and> n \<le> 90) \<or> (97 \<le> n \<and> n \<le> 122) \<or>
     n = 45 \<or> n = 46 \<or> n = 95 \<or> n = 126)"

definition hex_digit :: "nat \<Rightarrow> char" where
  "hex_digit d = (if d < 10 then char_of (48 + d) else char_of (55 + d))"

definition escape_char :: "char \<Rightarrow> string" where
  "escape_char c = (if unreserved c then [c]
     else [CHR ''%'', hex_digit ((of_char c :: nat) div 16), hex_digit ((of_char c :: nat) mod 16)])"

definition curl_escape :: "string \<Rightarrow> string" where
  "curl_escape name = concat (map escape_char name)"

text \<open>
  \<^verbatim>\<open>ares_inet_ntop(AF_INET, src, dst, size)\<close> (c-ares, a library call) reads four octets at
  \<open>src\<close> and writes them in dotted-decimal; it fails, writing nothing, when the text and
  its terminator do not fit in \<open>size\<close> bytes.
\<close>

type_synonym in_addr = "octet \<times> octet \<times> octet \<times> octet"

definition dotted_quad :: "in_addr \<Rightarrow> string" where
  "dotted_quad a = (case a of (a1, a2, a3, a4) \<Rightarrow>
     dec_nat (unat a1) @ ''.'' @ dec_nat (unat a2) @ ''.'' @ dec_nat (unat a3) @ ''.'' @ dec_nat (unat a4))"

definition ares_inet_ntop :: "in_addr \<Rightarrow> nat \<Rightarrow> string option" where
  "ares_inet_ntop src n = (if length (dotted_quad src) < n then Some (dotted_quad src) else None)"

subsection \<open>Data: \<^verbatim>\<open>app_state_t\<close>, \<^verbatim>\<open>request_t\<close> and the observable state\<close>

type_synonym ptr = nat

record sockaddr_in =
  sin_port :: u16
  sin_addr :: "32 word"

text \<open>\<^verbatim>\<open>request_t\<close>: the context of one fetch in flight.\<close>

record request_t =
  tx_id :: u16
  raddr :: sockaddr_in
  dns_server :: ptr

text \<open>
  \<^verbatim>\<open>app_state_t\<close>. The field \<open>resolv\<close> is a \<^verbatim>\<open>struct curl_slist *\<close>: \<open>None\<close> is NULL,
  \<open>Some p\<close> the address of a list held in the store \<open>slists\<close> below.
\<close>

record app_state_t =
  https_client :: ptr
  resolv :: "ptr option"
  extra_request_args :: string

text \<open>One call \<^verbatim>\<open>https_client_fetch(client, url, resolv, https_resp_cb, data)\<close>.\<close>

record fetch =
  f_client :: ptr
  f_url :: string
  f_resolv :: "ptr option"
  f_pinned :: "string list"
  f_data :: "ptr option"

text \<open>One call \<^verbatim>\<open>dns_server_respond(server, raddr, buf, len)\<close>: a datagram sent.\<close>

record reply =
  r_server :: ptr
  r_raddr :: sockaddr_in
  r_bytes :: "octet list"

datatype severity = LOG_DEBUG | LOG_INFO | LOG_WARNING | LOG_ERROR | LOG_FATAL

datatype proc_status = Running | Stopped | Aborted | Crashed

text \<open>
  The state the callbacks act on: the application state, the heap of live \<^verbatim>\<open>request_t\<close>
  blocks obtained from \<^verbatim>\<open>calloc\<close>, the blocks given back by \<^verbatim>\<open>free\<close> with the contents
  they were left with (an address is never handed out twice), the store of
  \<^verbatim>\<open>curl_slist\<close> lists, the next unused address, and the trace of what left the process: fetches issued, datagrams sent, calls
  of the converter, log lines (severity and format string), and whether the process
  still runs.
\<close>

record proxy_state =
  app :: app_state_t
  requests :: "ptr \<rightharpoonup> request_t"
  released :: "ptr \<rightharpoonup> request_t"
  slists :: "ptr \<rightharpoonup> string list"
  next_ptr :: ptr
  fetches :: "fetch list"
  replies :: "reply list"
  json_calls :: "(u16 \<times> string) list"
  logs :: "(severity \<times> string) list"
  status :: proc_status

subsection \<open>Collaborators outside main.c\<close>

text \<open>
  The logging macros of \<^verbatim>\<open>logging.h\<close> (not among the sources). \<open>DLOG\<close>, \<open>WLOG\<close> and
  \<open>ELOG\<close> record a line.
\<close>

definition WLOG :: "string \<Rightarrow> proxy_state \<Rightarrow> proxy_state" where
  "WLOG msg s = s\<lparr>logs := logs s @ [(LOG_WARNING, msg)]\<rparr>"

definition DLOG :: "string \<Rightarrow> proxy_state \<Rightarrow> proxy_state" where
  "DLOG msg s = s\<lparr>logs := logs s @ [(LOG_DEBUG, msg)]\<rparr>"

definition ELOG :: "string \<Rightarrow> proxy_state \<Rightarrow> proxy_state" where
  "ELOG msg s = s\<lparr>logs := logs s @ [(LOG_ERROR, msg)]\<rparr>"

text \<open>
  Modelled from the spec: the macro \<^verbatim>\<open>FLOG\<close> of \<^verbatim>\<open>logging.h\<close>, which is not among the
  sources. "Fatal errors: process aborts immediately with a descriptive message": the
  line is recorded and the process ends; nothing after the macro runs.
\<close>

definition FLOG :: "string \<Rightarrow> proxy_state \<Rightarrow> proxy_state" where
  "FLOG msg s = s\<lparr>logs := logs s @ [(LOG_FATAL, msg)], status := Aborted\<rparr>"

text \<open>
  \<^verbatim>\<open>json_to_dns(tx_id, in, out, olen)\<close> of \<^verbatim>\<open>json_to_dns.c\<close> (not among the sources) is a
  parameter of the model: from the transaction id, the JSON text and the size of the
  output buffer it yields the returned \<^verbatim>\<open>int\<close> and the contents of the output buffer.
\<close>

type_synonym json_to_dns_t = "u16 \<Rightarrow> string \<Rightarrow> nat \<Rightarrow> int \<times> octet list"

text \<open>
  Modelled from the spec: what \<^verbatim>\<open>json_to_dns\<close> (\<open>WireCodec.encodeResponse\<close>) does with
  the transaction id. It "writes a DNS header reusing \<open>query.transactionId\<close>" and "fails
  if the encoded size would exceed the caller-supplied buffer": whenever it returns a
  positive length \<open>r\<close>, the \<open>r\<close> bytes fit the buffer, hold at least the 12-byte header,
  and bytes 0 and 1 are the id, high byte first.
\<close>

definition wire_id :: "octet list \<Rightarrow> u16 option" where
  "wire_id bs = (case bs of hi # lo # _ \<Rightarrow> Some (push_bit 8 (ucast hi) OR ucast lo) | _ \<Rightarrow> None)"

definition reuses_tx_id :: "json_to_dns_t \<Rightarrow> bool" where
  "reuses_tx_id json_to_dns = (\<forall>tx body n. case json_to_dns tx body n of (r, out) \<Rightarrow>
     0 < r \<longrightarrow> 12 \<le> r \<and> nat r \<le> n \<and> nat r \<le> length out \<and> wire_id out = Some tx)"

definition dns_server_respond :: "ptr \<Rightarrow> sockaddr_in \<Rightarrow> octet list \<Rightarrow> proxy_state \<Rightarrow> proxy_state" where
  "dns_server_respond srv addr bytes s =
     s\<lparr>replies := replies s @ [\<lparr>r_server = srv, r_raddr = addr, r_bytes = bytes\<rparr>]\<rparr>"

definition slist_contents :: "proxy_state \<Rightarrow> ptr option \<Rightarrow> string list" where
  "slist_contents s rs = (case rs of None \<Rightarrow> []
     | Some p \<Rightarrow> (case slists s p of None \<Rightarrow> [] | Some l \<Rightarrow> l))"

text \<open>
  Modelled from the spec: \<^verbatim>\<open>https_client_fetch\<close> of \<^verbatim>\<open>https_client.c\<close>, which is not among
  the sources. The override is "read by HttpsDispatcher at the moment each request is
  issued": the call records the pointer it was given and, in \<open>f_pinned\<close>, the entries
  that pointer led to at that moment (none for NULL).
\<close>

definition https_client_fetch ::
  "ptr \<Rightarrow> string \<Rightarrow> ptr option \<Rightarrow> ptr option \<Rightarrow> proxy_state \<Rightarrow> proxy_state" where
  "https_client_fetch c url rs data s =
     s\<lparr>fetches := fetches s @
        [\<lparr>f_client = c, f_url = url, f_resolv = rs, f_pinned = slist_contents s rs, f_data = data\<rparr>]\<rparr>"

text \<open>
  libcurl's list calls: \<^verbatim>\<open>curl_slist_free_all\<close> releases a list (NULL is allowed), and
  \<^verbatim>\<open>curl_slist_append(NULL, buf)\<close> makes a new one-entry list holding a copy of \<open>buf\<close>
  (taken to succeed).
\<close>

definition curl_slist_free_all :: "ptr option \<Rightarrow> proxy_state \<Rightarrow> proxy_state" where
  "curl_slist_free_all rs s = (case rs of None \<Rightarrow> s | Some p \<Rightarrow> s\<lparr>slists := (slists s)(p := None)\<rparr>)"

definition curl_slist_append_NULL :: "string \<Rightarrow> proxy_state \<Rightarrow> ptr \<times> proxy_state" where
  "curl_slist_append_NULL buf s =
     (next_ptr s, s\<lparr>slists := (slists s)(next_ptr s \<mapsto> [buf]), next_ptr := Suc (next_ptr s)\<rparr>)"

subsection \<open>The callbacks of main.c\<close>

text \<open>The bytes of a buffer seen as a C string: up to the first NUL.\<close>

definition c_str :: "string \<Rightarrow> string" where
  "c_str bs = takeWhile (\<lambda>c. c \<noteq> CHR 0x00) bs"

text \<open>
  What a pointer to a \<^verbatim>\<open>request_t\<close> leads to: a live block, a block that was released
  (read as it was left), or nothing that was ever allocated.
\<close>

definition block_at :: "proxy_state \<Rightarrow> ptr \<Rightarrow> (request_t \<times> bool) option" where
  "block_at s p = (case requests s p of Some req \<Rightarrow> Some (req, True)
     | None \<Rightarrow> (case released s p of Some req \<Rightarrow> Some (req, False) | None \<Rightarrow> None))"

text \<open>
  \<^verbatim>\<open>https_resp_cb(data, buf, buflen)\<close>, lines 56 to 84. \<open>buf = None\<close> is the NULL body,
  \<open>Some bytes\<close> a buffer of which the first \<open>buflen\<close> bytes are the body; \<open>data = None\<close>
  is a NULL context; \<open>calloc_ok\<close> tells whether the \<^verbatim>\<open>calloc\<close> of the copy \<open>bufcpy\<close>
  returns a block. \<open>buflen\<close> is an \<^verbatim>\<open>unsigned int\<close>: for \<open>buflen = UINT_MAX\<close> the size
  \<open>buflen + 1\<close> wraps to 0 and the \<^verbatim>\<open>memcpy\<close> of line 69 writes past the block. The copy is
  released on the path that reaches line 82 and is not kept in the state. A context
  that was released before is read as it was left, and releasing it again at line 83
  ends the process; a context that never was a block is an invalid read at line 71.
\<close>

definition https_resp_cb ::
  "json_to_dns_t \<Rightarrow> bool \<Rightarrow> ptr option \<Rightarrow> string option \<Rightarrow> 32 word \<Rightarrow> proxy_state \<Rightarrow> proxy_state" where
  "https_resp_cb json_to_dns calloc_ok data buf buflen s =
     (let s1 = DLOG (''buflen %u'' @ [CHR 0x0A]) s in
      case buf of
        None \<Rightarrow> s1
      | Some bytes \<Rightarrow>
         (case data of
            None \<Rightarrow> FLOG ''data NULL'' s1
          | Some p \<Rightarrow>
             if \<not> calloc_ok then FLOG ''calloc'' s1
             else if buflen + 1 = 0 then s1\<lparr>status := Crashed\<rparr>
             else (case block_at s1 p of
                None \<Rightarrow> s1\<lparr>status := Crashed\<rparr>
              | Some (req, live) \<Rightarrow>
                 (let bufcpy = c_str (take (unat buflen) bytes);
                      s2 = DLOG ''Received response for id %04x: %.*s'' s1;
                      obuf_size = 1500;
                      (r, obuf) = json_to_dns (tx_id req) bufcpy obuf_size;
                      s3 = s2\<lparr>json_calls := json_calls s2 @ [(tx_id req, bufcpy)]\<rparr>;
                      s4 = (if r \<le> 0 then ELOG ''Failed to decode JSON.'' s3
                            else dns_server_respond (dns_server req) (raddr req) (take (nat r) obuf) s3)
                  in if live
                     then s4\<lparr>requests := (requests s4)(p := None), released := (released s4)(p \<mapsto> req)\<rparr>
                     else s4\<lparr>status := Crashed\<rparr>))))"

text \<open>
  Lines 94 to 101 of \<^verbatim>\<open>dns_server_cb\<close>: the URL left in \<^verbatim>\<open>char url[1500]\<close> by
  \<^verbatim>\<open>snprintf(url, sizeof(url) - 1, ...)\<close>.
\<close>

definition build_url :: "app_state_t \<Rightarrow> u16 \<Rightarrow> string \<Rightarrow> c_int \<Rightarrow> string" where
  "build_url a flags name type =
     (let cd_bit = flags AND push_bit 4 1;
          escaped_name = curl_escape name
      in snprintf (1500 - 1)
           (''https://dns.google.com/resolve?name='' @ escaped_name @ ''&type='' @ fmt_d type @
            (if cd_bit \<noteq> 0 then ''&cd=true'' else []) @ extra_request_args a))"

text \<open>
  \<^verbatim>\<open>dns_server_cb(dns_server, data, addr, tx_id, flags, name, type)\<close>, lines 86 to 109,
  with \<open>data\<close> the application state. The result of \<^verbatim>\<open>calloc\<close> is not tested: when it
  fails, the store through the NULL pointer at line 105 ends the process.
\<close>

definition dns_server_cb ::
  "bool \<Rightarrow> ptr \<Rightarrow> sockaddr_in \<Rightarrow> u16 \<Rightarrow> u16 \<Rightarrow> string \<Rightarrow> c_int \<Rightarrow> proxy_state \<Rightarrow> proxy_state" where
  "dns_server_cb calloc_ok srv addr tx flags name type s =
     (let s1 = DLOG ''Received request for '%s' id: %04x, type %d, flags %04x'' s;
          url = build_url (app s1) flags name type
      in if \<not> calloc_ok then s1\<lparr>status := Crashed\<rparr>
         else (let req = next_ptr s1;
                   s2 = s1\<lparr>requests := (requests s1)(req \<mapsto> \<lparr>tx_id = tx, raddr = addr, dns_server = srv\<rparr>),
                           next_ptr := Suc req\<rparr>
               in https_client_fetch (https_client (app s2)) url (resolv (app s2)) (Some req) s2))"

text \<open>
  \<^verbatim>\<open>dns_poll_cb(data, addr)\<close>, lines 111 to 120, with \<open>data\<close> the address of the field
  \<open>resolv\<close> of the application state. \<open>addr\<close> is declared a \<^verbatim>\<open>struct sockaddr_in *\<close>; the
  callback reads no field of it and gives the pointer itself to \<^verbatim>\<open>ares_inet_ntop\<close>, which
  reads the four octets found there. The parameter is the memory at that address, as
  bytes; fewer than four is an invalid read.
\<close>

definition dns_poll_cb :: "octet list \<Rightarrow> proxy_state \<Rightarrow> proxy_state" where
  "dns_poll_cb addr s =
     (case addr of
        a1 # a2 # a3 # a4 # _ \<Rightarrow>
          (let buf0 = ''dns.google.com:443:'';
               buf = (case ares_inet_ntop (a1, a2, a3, a4) (128 - length buf0) of
                        None \<Rightarrow> buf0 | Some t \<Rightarrow> buf0 @ t);
               s1 = DLOG (''Received new IP '%s'' @ [CHR 0x27]) s;
               s2 = curl_slist_free_all (resolv (app s1)) s1;
               (p, s3) = curl_slist_append_NULL buf s2
           in s3\<lparr>app := (app s3)\<lparr>resolv := Some p\<rparr>\<rparr>)
      | _ \<Rightarrow> s\<lparr>status := Crashed\<rparr>)"

subsection \<open>Start-up and the event loop\<close>

text \<open>The fields of \<^verbatim>\<open>struct Options\<close> (\<^verbatim>\<open>options.h\<close>, not among the sources) that main.c reads.\<close>

record Options =
  listen_addr :: string
  listen_port :: nat
  bootstrap_dns :: string
  http_dns_server :: string
  edns_client_subnet :: string
  daemonize :: bool
  uid :: nat
  gid :: nat

record dns_poller_t =
  poll_nameserver :: string
  poll_hostname :: string
  poll_interval :: nat

text \<open>
  Modelled from the spec: \<^verbatim>\<open>dns_poller_init(d, loop, bootstrap_dns, hostname, interval_seconds,
  cb, cb_data)\<close> of \<^verbatim>\<open>dns_poller.c\<close>, which is not among the sources. "On a fixed period,
  resolves the DoH server's hostname using a resolver configured with an explicit
  bootstrap nameserver address": a poller is the nameserver it asks, the hostname it
  asks for and its period in seconds; the callback is \<open>dns_poll_cb\<close> on the field
  \<open>resolv\<close>.
\<close>

definition dns_poller_init :: "string \<Rightarrow> string \<Rightarrow> nat \<Rightarrow> dns_poller_t" where
  "dns_poller_init nameserver hostname interval_seconds =
     \<lparr>poll_nameserver = nameserver, poll_hostname = hostname, poll_interval = interval_seconds\<rparr>"

text \<open>
  The name servers as the process finds them: what the server at a given address
  answers when asked for a hostname, \<open>None\<close> when the lookup fails.
\<close>

type_synonym name_servers = "string \<Rightarrow> string \<Rightarrow> octet list option"

text \<open>
  Modelled from the spec: one period of the poller of \<^verbatim>\<open>dns_poller.c\<close>, which is not among
  the sources. At time \<open>now\<close> (in seconds) it asks its nameserver for its hostname. "On
  successful resolution, atomically replaces the shared override; on failure, leaves
  the previous override untouched and logs the failure; polling continues on the same
  schedule": the answer goes to \<open>dns_poll_cb\<close>, a failure is logged, and the next
  period starts \<open>poll_interval\<close> seconds later.
\<close>

definition dns_poller_tick ::
  "name_servers \<Rightarrow> dns_poller_t \<Rightarrow> nat \<Rightarrow> proxy_state \<Rightarrow> nat \<times> proxy_state" where
  "dns_poller_tick net d now s =
     (now + poll_interval d,
      case net (poll_nameserver d) (poll_hostname d) of
        None \<Rightarrow> WLOG ''DNS lookup failed'' s
      | Some addr \<Rightarrow> dns_poll_cb addr s)"

datatype startup_error = Usage | Setgid_failed | Setuid_failed

text \<open>
  \<^verbatim>\<open>main\<close>, lines 122 to 183, up to the call of \<^verbatim>\<open>ev_run\<close>: the state in which the
  loop starts and the poller, or the reason the process ended before. \<open>parse_ok\<close>,
  \<open>setgid_ok\<close> and \<open>setuid_ok\<close> say whether \<^verbatim>\<open>options_parse_args\<close>, \<^verbatim>\<open>setgid\<close> and
  \<^verbatim>\<open>setuid\<close> return 0; \<open>client\<close> is the address of the HTTPS client.
  \<^verbatim>\<open>https_client_init\<close> and \<^verbatim>\<open>dns_server_init\<close> (not among the sources) are taken to
  return. The buffer of the client-subnet argument has 200 bytes, of which
  \<^verbatim>\<open>snprintf(buf, sizeof(buf) - 1, ...)\<close> fills at most 198.
\<close>

definition main :: "bool \<Rightarrow> bool \<Rightarrow> bool \<Rightarrow> ptr \<Rightarrow> Options \<Rightarrow> startup_error + proxy_state \<times> dns_poller_t" where
  "main parse_ok setgid_ok setuid_ok client opt =
     (if \<not> parse_ok then Inl Usage
      else let a = \<lparr>https_client = client, resolv = None,
                    extra_request_args =
                      (if edns_client_subnet opt \<noteq> []
                       then snprintf (200 - 1) (''&edns_client_subnet='' @ edns_client_subnet opt)
                       else [])\<rparr>
           in if daemonize opt \<and> \<not> setgid_ok then Inl Setgid_failed
              else if daemonize opt \<and> \<not> setuid_ok then Inl Setuid_failed
              else Inr (\<lparr>app = a, requests = Map.empty, released = Map.empty, slists = Map.empty,
                         next_ptr = 1,
                         fetches = [], replies = [], json_calls = [],
                         logs = [(LOG_INFO, ''System c-ares: %s''), (LOG_INFO, ''System libcurl: %s'')],
                         status = Running\<rparr>,
                        dns_poller_init (bootstrap_dns opt) (http_dns_server opt) 120))"

definition sigint_cb :: "proxy_state \<Rightarrow> proxy_state" where
  "sigint_cb s = s\<lparr>status := Stopped\<rparr>"

definition sigpipe_cb :: "proxy_state \<Rightarrow> proxy_state" where
  "sigpipe_cb s = ELOG ''Received SIGPIPE. Ignoring.'' s"

text \<open>
  What the event loop delivers, one handler at a time: a decoded query, the completion
  of a fetch, an address from the poller, a signal. A process that no longer runs
  handles nothing.
\<close>

datatype event =
    Query bool ptr sockaddr_in u16 u16 string c_int
  | Completion bool "ptr option" "string option" "32 word"
  | Resolved "octet list"
  | Sigint
  | Sigpipe

fun handle :: "json_to_dns_t \<Rightarrow> event \<Rightarrow> proxy_state \<Rightarrow> proxy_state" where
  "handle j (Query calloc_ok srv addr tx flags name type) s = dns_server_cb calloc_ok srv addr tx flags name type s"
| "handle j (Completion calloc_ok data buf buflen) s = https_resp_cb j calloc_ok data buf buflen s"
| "handle j (Resolved addr) s = dns_poll_cb addr s"
| "handle j Sigint s = sigint_cb s"
| "handle j Sigpipe s = sigpipe_cb s"

fun ev_run :: "json_to_dns_t \<Rightarrow> event list \<Rightarrow> proxy_state \<Rightarrow> proxy_state" where
  "ev_run j [] s = s"
| "ev_run j (e # es) s = (if status s = Running then ev_run j es (handle j e s) else s)"

fun is_Resolved :: "event \<Rightarrow> bool" where
  "is_Resolved (Resolved _) = True"
| "is_Resolved _ = False"

subsection \<open>Concrete instances\<close>

text \<open>
  A configuration whose DoH hostname is not Google's, the state in which the loop
  starts under it, the query of the specification's example scenario
  (id \<open>0x1234\<close>, name \<open>example.com\<close>, type 1, no flags) and the state after it was
  dispatched.
\<close>

definition example_options :: Options where
  "example_options = \<lparr>listen_addr = ''127.0.0.1'', listen_port = 5053, bootstrap_dns = ''8.8.8.8'',
     http_dns_server = ''doh.example.org'', edns_client_subnet = [], daemonize = False,
     uid = 0, gid = 0\<rparr>"

definition example_state :: proxy_state where
  "example_state = fst (projr (main True True True 7 example_options))"

definition example_addr :: sockaddr_in where
  "example_addr = \<lparr>sin_port = 5353, sin_addr = 0x7F000001\<rparr>"

definition example_pending :: proxy_state where
  "example_pending = dns_server_cb True 9 example_addr 0x1234 0 ''example.com'' 1 example_state"

text \<open>
  A converter to instantiate the parameter \<open>json_to_dns\<close> with: it rejects an empty
  body and a buffer below 12 bytes, and answers every other body with a bare DNS header
  carrying the id.
\<close>

definition header_only :: json_to_dns_t where
  "header_only tx body n =
     (if n < 12 \<or> body = [] then (0, [])
      else (12, [ucast (drop_bit 8 tx), ucast tx, 0x81, 0x80, 0, 0, 0, 0, 0, 0, 0, 0]))"

text \<open>Whether an event is the completion of the fetch whose context is at address \<open>p\<close>.\<close>

fun completes :: "ptr \<Rightarrow> event \<Rightarrow> bool" where
  "completes p (Completion _ data _ _) = (data = Some p)"
| "completes p _ = False"

text \<open>
  Name servers of which only the bootstrap server \<open>8.8.8.8\<close> answers, and only for
  \<open>doh.example.org\<close>.
\<close>

definition example_net :: name_servers where
  "example_net ns host = (if ns = ''8.8.8.8'' \<and> host = ''doh.example.org'' then Some [8, 8, 4, 4] else None)"

section \<open>Auxiliary facts\<close>

subsection \<open>Characters of the URL\<close>














lemma cd_bit_iff: "(flags AND push_bit 4 1 \<noteq> 0) = bit (flags :: u16) 4"
  using and_exp_eq_0_iff_not_bit [of flags 4] by simp




lemma build_url_eq:
  "build_url a flags name type =
     take 1498 (''https://dns.google.com/resolve?name='' @ curl_escape name @ ''&type='' @ fmt_d type @
                (if bit flags 4 then ''&cd=true'' else []) @ extra_request_args a)"
proof -
  have n: "(1500::nat) - 1 - 1 = 1498" by simp
  show ?thesis unfolding build_url_def snprintf_def Let_def cd_bit_iff n ..
qed


subsection \<open>The callbacks as state updates\<close>

lemma dns_server_cb_ok:
  "dns_server_cb True srv addr tx flags name type s =
     s\<lparr>logs := logs s @ [(LOG_DEBUG, ''Received request for '%s' id: %04x, type %d, flags %04x'')],
       requests := (requests s)(next_ptr s \<mapsto> \<lparr>tx_id = tx, raddr = addr, dns_server = srv\<rparr>),
       next_ptr := Suc (next_ptr s),
       fetches := fetches s @
         [\<lparr>f_client = https_client (app s), f_url = build_url (app s) flags name type,
           f_resolv = resolv (app s), f_pinned = slist_contents s (resolv (app s)),
           f_data = Some (next_ptr s)\<rparr>]\<rparr>"
  by (simp add: dns_server_cb_def DLOG_def https_client_fetch_def slist_contents_def Let_def
      split: option.split)

lemma dns_server_cb_fail:
  "dns_server_cb False srv addr tx flags name type s =
     s\<lparr>logs := logs s @ [(LOG_DEBUG, ''Received request for '%s' id: %04x, type %d, flags %04x'')],
       status := Crashed\<rparr>"
  by (simp add: dns_server_cb_def DLOG_def Let_def)

lemma https_resp_cb_null_body:
  "https_resp_cb j ok data None buflen s = s\<lparr>logs := logs s @ [(LOG_DEBUG, ''buflen %u'' @ [CHR 0x0A])]\<rparr>"
  by (simp add: https_resp_cb_def DLOG_def)


lemma https_resp_cb_calloc_fail:
  "https_resp_cb j False (Some p) (Some body) buflen s =
     s\<lparr>logs := logs s @ [(LOG_DEBUG, ''buflen %u'' @ [CHR 0x0A]), (LOG_FATAL, ''calloc'')],
       status := Aborted\<rparr>"
  by (simp add: https_resp_cb_def DLOG_def FLOG_def)

lemma https_resp_cb_wrap:
  "buflen + 1 = 0 \<Longrightarrow> https_resp_cb j True (Some p) (Some body) buflen s =
     s\<lparr>logs := logs s @ [(LOG_DEBUG, ''buflen %u'' @ [CHR 0x0A])], status := Crashed\<rparr>"
  by (simp add: https_resp_cb_def DLOG_def)

lemma https_resp_cb_failed:
  assumes "requests s p = Some req" and "buflen + 1 \<noteq> 0"
    and "j (tx_id req) (c_str (take (unat buflen) body)) 1500 = (r, out)" and "r \<le> 0"
  shows "https_resp_cb j True (Some p) (Some body) buflen s =
     s\<lparr>logs := logs s @ [(LOG_DEBUG, ''buflen %u'' @ [CHR 0x0A]),
                           (LOG_DEBUG, ''Received response for id %04x: %.*s''),
                           (LOG_ERROR, ''Failed to decode JSON.'')],
       json_calls := json_calls s @ [(tx_id req, c_str (take (unat buflen) body))],
       requests := (requests s)(p := None),
       released := (released s)(p \<mapsto> req)\<rparr>"
  using assms by (simp add: https_resp_cb_def block_at_def DLOG_def ELOG_def Let_def)

lemma https_resp_cb_replied:
  assumes "requests s p = Some req" and "buflen + 1 \<noteq> 0"
    and "j (tx_id req) (c_str (take (unat buflen) body)) 1500 = (r, out)" and "0 < r"
  shows "https_resp_cb j True (Some p) (Some body) buflen s =
     s\<lparr>logs := logs s @ [(LOG_DEBUG, ''buflen %u'' @ [CHR 0x0A]),
                           (LOG_DEBUG, ''Received response for id %04x: %.*s'')],
       json_calls := json_calls s @ [(tx_id req, c_str (take (unat buflen) body))],
       replies := replies s @ [\<lparr>r_server = dns_server req, r_raddr = raddr req, r_bytes = take (nat r) out\<rparr>],
       requests := (requests s)(p := None),
       released := (released s)(p \<mapsto> req)\<rparr>"
  using assms by (simp add: https_resp_cb_def block_at_def DLOG_def dns_server_respond_def Let_def)

lemma length_dec_nat_octet: "n < 256 \<Longrightarrow> length (dec_nat n) \<le> 3"
  by (simp add: dec_nat.simps [of n] dec_nat.simps [of "n div 10"] dec_nat.simps [of "n div 10 div 10"])

lemma length_dotted_quad: "length (dotted_quad a) \<le> 15"
proof -
  obtain a1 a2 a3 a4 where a: "a = (a1, a2, a3, a4)" by (cases a) auto
  have b: "unat w < 256" for w :: octet using unsigned_less [of w, where ?'a = nat] by simp
  show ?thesis
    using length_dec_nat_octet [OF b [of a1]] length_dec_nat_octet [OF b [of a2]]
      length_dec_nat_octet [OF b [of a3]] length_dec_nat_octet [OF b [of a4]]
    by (simp add: a dotted_quad_def)
qed

lemma dns_poll_cb_eq:
  "dns_poll_cb (a1 # a2 # a3 # a4 # rest) s =
     s\<lparr>logs := logs s @ [(LOG_DEBUG, ''Received new IP '%s'' @ [CHR 0x27])],
       slists := (case resolv (app s) of None \<Rightarrow> slists s | Some q \<Rightarrow> (slists s)(q := None))
                   (next_ptr s \<mapsto> [''dns.google.com:443:'' @ dotted_quad (a1, a2, a3, a4)]),
       next_ptr := Suc (next_ptr s),
       app := (app s)\<lparr>resolv := Some (next_ptr s)\<rparr>\<rparr>"
proof -
  have "length (dotted_quad (a1, a2, a3, a4)) < 128 - length ''dns.google.com:443:''"
    using length_dotted_quad [of "(a1, a2, a3, a4)"] by simp
  then show ?thesis
    by (simp add: dns_poll_cb_def DLOG_def curl_slist_free_all_def curl_slist_append_NULL_def
        ares_inet_ntop_def Let_def split: option.split)
qed

lemma dns_poll_cb_cases:
  "(\<exists>a1 a2 a3 a4 rest. addr = a1 # a2 # a3 # a4 # rest) \<or> dns_poll_cb addr s = s\<lparr>status := Crashed\<rparr>"
  by (auto simp: dns_poll_cb_def split: list.splits)

lemma dns_poll_cb_frame:
  "requests (dns_poll_cb addr s) = requests s \<and>
   next_ptr s \<le> next_ptr (dns_poll_cb addr s) \<and>
   fetches (dns_poll_cb addr s) = fetches s \<and>
   extra_request_args (app (dns_poll_cb addr s)) = extra_request_args (app s)"
  using dns_poll_cb_cases [of addr s] by (auto simp: dns_poll_cb_eq)

subsection \<open>What the handlers leave alone\<close>

lemma https_resp_cb_other:
  "data \<noteq> Some p \<Longrightarrow> requests (https_resp_cb j ok data buf buflen s) p = requests s p"
  by (auto simp: https_resp_cb_def DLOG_def FLOG_def ELOG_def dns_server_respond_def Let_def
      split: option.splits prod.splits)

lemma https_resp_cb_frame:
  "next_ptr (https_resp_cb j ok data buf buflen s) = next_ptr s \<and>
   app (https_resp_cb j ok data buf buflen s) = app s \<and>
   slists (https_resp_cb j ok data buf buflen s) = slists s \<and>
   fetches (https_resp_cb j ok data buf buflen s) = fetches s"
  by (auto simp: https_resp_cb_def DLOG_def FLOG_def ELOG_def dns_server_respond_def Let_def
      split: option.splits prod.splits)

lemma dns_server_cb_frame:
  "app (dns_server_cb ok srv addr tx flags name type s) = app s \<and>
   slists (dns_server_cb ok srv addr tx flags name type s) = slists s \<and>
   next_ptr s \<le> next_ptr (dns_server_cb ok srv addr tx flags name type s) \<and>
   (p < next_ptr s \<longrightarrow> requests (dns_server_cb ok srv addr tx flags name type s) p = requests s p)"
  by (cases ok) (simp_all add: dns_server_cb_ok dns_server_cb_fail)

lemma handle_request_kept:
  assumes "p < next_ptr s" and "\<not> completes p e"
  shows "requests (handle j e s) p = requests s p \<and> next_ptr s \<le> next_ptr (handle j e s)"
proof (cases e)
  case (Query ok srv addr tx flags name type)
  then show ?thesis using assms(1) dns_server_cb_frame [of ok srv addr tx flags name type s p] by simp
next
  case (Completion ok data buf buflen)
  with assms(2) have "data \<noteq> Some p" by simp
  then show ?thesis using Completion by (simp add: https_resp_cb_other https_resp_cb_frame)
next
  case (Resolved addr)
  then show ?thesis by (simp add: dns_poll_cb_frame)
next
  case Sigint
  then show ?thesis by (simp add: sigint_cb_def)
next
  case Sigpipe
  then show ?thesis by (simp add: sigpipe_cb_def ELOG_def)
qed

lemma ev_run_request_kept:
  "p < next_ptr s \<Longrightarrow> \<not> list_ex (completes p) evs \<Longrightarrow>
   requests (ev_run j evs s) p = requests s p \<and> next_ptr s \<le> next_ptr (ev_run j evs s)"
proof (induction evs arbitrary: s)
  case Nil
  then show ?case by simp
next
  case (Cons e es)
  show ?case
  proof (cases "status s = Running")
    case True
    from Cons.prems have e: "\<not> completes p e" and es: "\<not> list_ex (completes p) es" by simp_all
    from handle_request_kept [OF Cons.prems(1) e, of j]
    have h: "requests (handle j e s) p = requests s p" "next_ptr s \<le> next_ptr (handle j e s)"
      by simp_all
    with Cons.prems(1) have "p < next_ptr (handle j e s)" by simp
    from Cons.IH [OF this es] h True show ?thesis by simp
  next
    case False
    then show ?thesis by simp
  qed
qed

lemma wire_id_take: "wire_id out = Some tx \<Longrightarrow> 2 \<le> n \<Longrightarrow> wire_id (take n out) = Some tx"
  by (cases out; cases n) (auto simp: wire_id_def take_Cons' split: list.splits nat.splits)

lemma completion_reply:
  assumes enc: "reuses_tx_id j" and req: "requests s p = Some \<lparr>tx_id = tx, raddr = addr, dns_server = srv\<rparr>"
  shows "replies (https_resp_cb j ok (Some p) buf buflen s) = replies s \<or>
     (\<exists>body. buf = Some body \<and>
        replies (https_resp_cb j ok (Some p) buf buflen s) = replies s @
           [\<lparr>r_server = srv, r_raddr = addr,
             r_bytes = take (nat (fst (j tx (c_str (take (unat buflen) body)) 1500)))
                         (snd (j tx (c_str (take (unat buflen) body)) 1500))\<rparr>] \<and>
        wire_id (take (nat (fst (j tx (c_str (take (unat buflen) body)) 1500)))
                   (snd (j tx (c_str (take (unat buflen) body)) 1500))) = Some tx)"
proof (cases buf)
  case None
  then show ?thesis by (simp add: https_resp_cb_null_body)
next
  case (Some body)
  let ?b = "c_str (take (unat buflen) body)"
  show ?thesis
  proof (cases "ok \<and> buflen + 1 \<noteq> 0")
    case False
    then show ?thesis using Some
      by (cases ok) (auto simp: https_resp_cb_calloc_fail https_resp_cb_wrap)
  next
    case True
    then have ok: ok and w: "buflen + 1 \<noteq> 0" by simp_all
    obtain r out where j: "j tx ?b 1500 = (r, out)" by (cases "j tx ?b 1500")
    show ?thesis
    proof (cases "r \<le> 0")
      case True
      from https_resp_cb_failed [of s p _ buflen j body r out, OF req w _ True] j
      show ?thesis using Some ok by simp
    next
      case False
      then have pos: "0 < r" by simp
      from enc j pos have "12 \<le> r" and wi: "wire_id out = Some tx"
        by (auto simp: reuses_tx_id_def split: prod.splits dest!: spec [of _ tx])
      then have "wire_id (take (nat r) out) = Some tx" by (intro wire_id_take) simp_all
      moreover from https_resp_cb_replied [of s p _ buflen j body r out, OF req w _ pos] j
      have "replies (https_resp_cb j True (Some p) (Some body) buflen s) = replies s @
           [\<lparr>r_server = srv, r_raddr = addr, r_bytes = take (nat r) out\<rparr>]" by simp
      ultimately show ?thesis using Some ok j by simp
    qed
  qed
qed

lemma handle_app_kept:
  "\<not> is_Resolved e \<Longrightarrow> app (handle j e s) = app s \<and> slists (handle j e s) = slists s"
  by (cases e) (simp_all add: dns_server_cb_frame https_resp_cb_frame sigint_cb_def sigpipe_cb_def ELOG_def)

lemma handle_extra_args: "extra_request_args (app (handle j e s)) = extra_request_args (app s)"
  by (cases e) (simp_all add: dns_server_cb_frame https_resp_cb_frame dns_poll_cb_frame sigint_cb_def
      sigpipe_cb_def ELOG_def)

lemma ev_run_extra_args: "extra_request_args (app (ev_run j evs s)) = extra_request_args (app s)"
  by (induction evs arbitrary: s) (simp_all add: handle_extra_args)

lemma handle_fetches:
  assumes "\<not> is_Resolved e"
  shows "\<exists>new. fetches (handle j e s) = fetches s @ new \<and>
     (\<forall>f\<in>set new. f_resolv f = resolv (app s) \<and> f_pinned f = slist_contents s (resolv (app s)))"
proof (cases e)
  case (Query ok srv addr tx flags name type)
  then show ?thesis by (cases ok) (simp_all add: dns_server_cb_ok dns_server_cb_fail)
next
  case (Completion ok data buf buflen)
  then show ?thesis by (simp add: https_resp_cb_frame)
next
  case (Resolved addr)
  with assms show ?thesis by simp
next
  case Sigint
  then show ?thesis by (simp add: sigint_cb_def)
next
  case Sigpipe
  then show ?thesis by (simp add: sigpipe_cb_def ELOG_def)
qed

lemma ev_run_fetches:
  "\<not> list_ex is_Resolved evs \<Longrightarrow>
   app (ev_run j evs s) = app s \<and> slists (ev_run j evs s) = slists s \<and>
   (\<exists>new. fetches (ev_run j evs s) = fetches s @ new \<and>
     (\<forall>f\<in>set new. f_resolv f = resolv (app s) \<and> f_pinned f = slist_contents s (resolv (app s))))"
proof (induction evs arbitrary: s)
  case Nil
  then show ?case by simp
next
  case (Cons e es)
  show ?case
  proof (cases "status s = Running")
    case False
    then show ?thesis by simp
  next
    case True
    from Cons.prems have e: "\<not> is_Resolved e" and es: "\<not> list_ex is_Resolved es" by simp_all
    let ?s = "handle j e s"
    from handle_app_kept [OF e, of j s] have k: "app ?s = app s" "slists ?s = slists s" by simp_all
    then have c: "slist_contents ?s (resolv (app ?s)) = slist_contents s (resolv (app s))"
      by (simp add: slist_contents_def split: option.split)
    from handle_fetches [OF e, of j s] obtain n1 where
      n1: "fetches ?s = fetches s @ n1"
        "\<forall>f\<in>set n1. f_resolv f = resolv (app s) \<and> f_pinned f = slist_contents s (resolv (app s))"
      by blast
    from Cons.IH [OF es, of ?s] obtain n2 where
      n2: "app (ev_run j es ?s) = app ?s" "slists (ev_run j es ?s) = slists ?s"
        "fetches (ev_run j es ?s) = fetches ?s @ n2"
        "\<forall>f\<in>set n2. f_resolv f = resolv (app ?s) \<and> f_pinned f = slist_contents ?s (resolv (app ?s))"
      by blast
    have "fetches (ev_run j (e # es) s) = fetches s @ (n1 @ n2)"
      using True n1(1) n2(3) by simp
    moreover have "\<forall>f\<in>set (n1 @ n2). f_resolv f = resolv (app s) \<and> f_pinned f = slist_contents s (resolv (app s))"
      using n1(2) n2(4) k c by auto
    ultimately show ?thesis using True k n2(1,2) by (intro conjI exI [of _ "n1 @ n2"]) simp_all
  qed
qed

lemma main_Inr:
  assumes "main parse_ok setgid_ok setuid_ok client opt = Inr (s0, poller)"
  shows "s0 = \<lparr>app = \<lparr>https_client = client, resolv = None,
                    extra_request_args =
                      (if edns_client_subnet opt = [] then []
                       else take 198 (''&edns_client_subnet='' @ edns_client_subnet opt))\<rparr>,
               requests = Map.empty, released = Map.empty, slists = Map.empty, next_ptr = 1,
               fetches = [], replies = [], json_calls = [],
               logs = [(LOG_INFO, ''System c-ares: %s''), (LOG_INFO, ''System libcurl: %s'')],
               status = Running\<rparr>"
    and "poller = \<lparr>poll_nameserver = bootstrap_dns opt, poll_hostname = http_dns_server opt, poll_interval = 120\<rparr>"
  using assms by (auto simp: main_def snprintf_def dns_poller_init_def Let_def split: if_splits)

section \<open>The claims\<close>

lemma main_example:
  "main True True True 7 example_options =
     Inr (example_state, \<lparr>poll_nameserver = ''8.8.8.8'', poll_hostname = ''doh.example.org'', poll_interval = 120\<rparr>)"
  by (simp add: example_state_def main_def example_options_def dns_poller_init_def)

lemma header_only_reuses: "reuses_tx_id header_only"
proof -
  have "push_bit 8 (ucast (ucast (drop_bit 8 tx :: u16) :: octet)) OR ucast (ucast tx :: octet) = tx" for tx :: u16
    by (rule bit_word_eqI) (auto simp: bit_simps)
  then show ?thesis by (simp add: reuses_tx_id_def header_only_def wire_id_def)
qed

lemma curl_escape_replicate_a: "curl_escape (replicate n CHR ''a'') = replicate n CHR ''a''"
  by (induction n) (simp_all add: curl_escape_def escape_char_def unreserved_def)

subsection \<open>C1: a completion with a NULL body\<close>

text \<open>
  On the path that frees the context (line 83), reached when the body is present and its
  copy was made, the \<^verbatim>\<open>request_t\<close> leaves the heap.
\<close>

lemma body_completion_frees_request:
  assumes "requests s p = Some req" and "buflen + 1 \<noteq> 0"
  shows "requests (https_resp_cb j True (Some p) (Some body) buflen s) p = None"
proof -
  obtain r out where j: "j (tx_id req) (c_str (take (unat buflen) body)) 1500 = (r, out)"
    by (cases "j (tx_id req) (c_str (take (unat buflen) body)) 1500")
  show ?thesis
    using j https_resp_cb_failed [of s p req buflen j body r out, OF assms]
      https_resp_cb_replied [of s p req buflen j body r out, OF assms]
    by (cases "r \<le> 0") simp_all
qed

text \<open>
  C1. For a completion delivered with a NULL body the handler sends no datagram and
  does not call the converter. It does not discard the context either: the return at
  line 59 comes before \<^verbatim>\<open>free(req)\<close> at line 83, so the \<^verbatim>\<open>request_t\<close> that was live
  before the call is still live after it. The claim's "discards the PendingRequest
  context with no resource leak" fails on the code.
\<close>

theorem null_body_keeps_request:
  assumes "requests s p = Some req"
  shows "replies (https_resp_cb j ok (Some p) None buflen s) = replies s \<and>
         json_calls (https_resp_cb j ok (Some p) None buflen s) = json_calls s \<and>
         requests (https_resp_cb j ok (Some p) None buflen s) p = Some req"
  using assms by (simp add: https_resp_cb_null_body)

theorem null_body_keeps_request_witness:
  "requests example_pending 1 = Some \<lparr>tx_id = 0x1234, raddr = example_addr, dns_server = 9\<rparr> \<and>
   replies (https_resp_cb header_only True (Some 1) None 0 example_pending) = replies example_pending \<and>
   json_calls (https_resp_cb header_only True (Some 1) None 0 example_pending) = json_calls example_pending \<and>
   requests (https_resp_cb header_only True (Some 1) None 0 example_pending) 1 =
     Some \<lparr>tx_id = 0x1234, raddr = example_addr, dns_server = 9\<rparr>"
proof -
  have h: "requests example_pending 1 = Some \<lparr>tx_id = 0x1234, raddr = example_addr, dns_server = 9\<rparr>"
    by code_simp
  show ?thesis using h null_body_keeps_request [OF h, of header_only True 0] by simp
qed

subsection \<open>C2: the URL of the outbound request\<close>

text \<open>
  C2, as stated, fails: under a configuration whose DoH hostname is
  \<open>doh.example.org\<close> the query of the example scenario is still fetched from
  \<open>dns.google.com\<close>; the URL does not start with the configured host.
\<close>

theorem url_host_counterexample:
  "http_dns_server example_options = ''doh.example.org'' \<and>
   f_url (last (fetches example_pending)) = ''https://dns.google.com/resolve?name=example.com&type=1'' \<and>
   \<not> prefix (''https://'' @ http_dns_server example_options @ ''/resolve?name='')
      (f_url (last (fetches example_pending)))"
  by code_simp

text \<open>
  C2, amended. Whatever the configuration and whatever was handled before, the URL
  given to the dispatcher for a query is the first 1498 characters of
  \<^verbatim>\<open>https://dns.google.com/resolve?name=<escaped-name>&type=<type>\<close>, followed by
  \<^verbatim>\<open>&cd=true\<close> when bit 4 of the flags is set and by the client-subnet parameter when
  one is configured. The host is the literal \<open>dns.google.com\<close> whatever DoH hostname
  is configured: the URL is given by the name, the type and the flags of the query and
  by the configured client subnet alone.
\<close>

theorem url_of_query:
  assumes "main parse_ok setgid_ok setuid_ok client opt = Inr (s0, poller)"
  shows "f_url (last (fetches (dns_server_cb True srv addr tx flags name type (ev_run j evs s0)))) =
     take 1498 (''https://dns.google.com/resolve?name='' @ curl_escape name @ ''&type='' @ fmt_d type @
                (if bit flags 4 then ''&cd=true'' else []) @
                (if edns_client_subnet opt = [] then []
                 else take 198 (''&edns_client_subnet='' @ edns_client_subnet opt)))"
proof -
  have "extra_request_args (app (ev_run j evs s0)) =
      (if edns_client_subnet opt = [] then [] else take 198 (''&edns_client_subnet='' @ edns_client_subnet opt))"
    unfolding ev_run_extra_args by (subst main_Inr(1) [OF assms]) simp
  then show ?thesis by (simp only: dns_server_cb_ok build_url_eq) simp
qed

theorem url_of_query_witness:
  "main True True True 7 example_options =
     Inr (example_state, \<lparr>poll_nameserver = ''8.8.8.8'', poll_hostname = ''doh.example.org'', poll_interval = 120\<rparr>) \<and>
   f_url (last (fetches (dns_server_cb True 9 example_addr 0x1234 0x10 ''a b.example.com'' 28
      (ev_run header_only [Sigpipe] example_state)))) =
     ''https://dns.google.com/resolve?name=a%20b.example.com&type=28&cd=true''"
proof (intro conjI)
  show "f_url (last (fetches (dns_server_cb True 9 example_addr 0x1234 0x10 ''a b.example.com'' 28
      (ev_run header_only [Sigpipe] example_state)))) =
     ''https://dns.google.com/resolve?name=a%20b.example.com&type=28&cd=true''"
    unfolding url_of_query [OF main_example] by code_simp
qed (rule main_example)

subsection \<open>C3: the swap of the resolver override\<close>



subsection \<open>C4: the transaction id of the reply\<close>

text \<open>
  C4. A query with transaction id \<open>tx\<close> is dispatched; any events follow, none of them
  the completion of that fetch; then the fetch completes with the context it was issued
  with. Either no datagram is sent, or exactly one is, to the address and through the
  server of the query, and its bytes are what the converter produced for \<open>tx\<close>: the id
  kept in the \<^verbatim>\<open>request_t\<close> at dispatch is the one given to \<^verbatim>\<open>json_to_dns\<close>. For a
  converter that writes the id it is given into the header, the id encoded in the reply
  is \<open>tx\<close>.
\<close>

theorem reply_carries_query_id:
  assumes "reuses_tx_id j" and "\<not> list_ex (completes (next_ptr s)) evs"
  shows "replies (https_resp_cb j ok (f_data (last (fetches (dns_server_cb True srv addr tx flags name type s)))) buf buflen
             (ev_run j evs (dns_server_cb True srv addr tx flags name type s)))
           = replies (ev_run j evs (dns_server_cb True srv addr tx flags name type s)) \<or>
     (\<exists>body. buf = Some body \<and>
        replies (https_resp_cb j ok (f_data (last (fetches (dns_server_cb True srv addr tx flags name type s)))) buf buflen
             (ev_run j evs (dns_server_cb True srv addr tx flags name type s)))
           = replies (ev_run j evs (dns_server_cb True srv addr tx flags name type s)) @
             [\<lparr>r_server = srv, r_raddr = addr,
               r_bytes = take (nat (fst (j tx (c_str (take (unat buflen) body)) 1500)))
                           (snd (j tx (c_str (take (unat buflen) body)) 1500))\<rparr>] \<and>
        wire_id (take (nat (fst (j tx (c_str (take (unat buflen) body)) 1500)))
                   (snd (j tx (c_str (take (unat buflen) body)) 1500))) = Some tx)"
proof -
  let ?s1 = "dns_server_cb True srv addr tx flags name type s"
  let ?p = "next_ptr s"
  have d: "f_data (last (fetches ?s1)) = Some ?p" by (simp add: dns_server_cb_ok)
  have lt: "?p < next_ptr ?s1" and rq: "requests ?s1 ?p = Some \<lparr>tx_id = tx, raddr = addr, dns_server = srv\<rparr>"
    by (simp_all add: dns_server_cb_ok)
  from ev_run_request_kept [OF lt assms(2), of j] rq
  have "requests (ev_run j evs ?s1) ?p = Some \<lparr>tx_id = tx, raddr = addr, dns_server = srv\<rparr>" by simp
  from completion_reply [OF assms(1) this, of ok buf buflen] show ?thesis unfolding d .
qed

theorem reply_carries_query_id_witness:
  "reuses_tx_id header_only \<and> \<not> list_ex (completes (next_ptr example_state)) [Sigpipe] \<and>
   replies (https_resp_cb header_only True
       (f_data (last (fetches (dns_server_cb True 9 example_addr 0x1234 0 ''example.com'' 1 example_state))))
       (Some ''{}'') 2
       (ev_run header_only [Sigpipe] (dns_server_cb True 9 example_addr 0x1234 0 ''example.com'' 1 example_state)))
     = [\<lparr>r_server = 9, r_raddr = example_addr, r_bytes = [0x12, 0x34, 0x81, 0x80, 0, 0, 0, 0, 0, 0, 0, 0]\<rparr>] \<and>
   wire_id [0x12, 0x34, 0x81, 0x80, 0, 0, 0, 0, 0, 0, 0, 0] = Some 0x1234"
proof -
  have h: "\<not> list_ex (completes (next_ptr example_state)) [Sigpipe]" by simp
  have v: "replies (https_resp_cb header_only True
       (f_data (last (fetches (dns_server_cb True 9 example_addr 0x1234 0 ''example.com'' 1 example_state))))
       (Some ''{}'') 2
       (ev_run header_only [Sigpipe] (dns_server_cb True 9 example_addr 0x1234 0 ''example.com'' 1 example_state)))
     = [\<lparr>r_server = 9, r_raddr = example_addr, r_bytes = [0x12, 0x34, 0x81, 0x80, 0, 0, 0, 0, 0, 0, 0, 0]\<rparr>]"
    by code_simp
  have w: "wire_id [0x12, 0x34, 0x81, 0x80, 0, 0, 0, 0, 0, 0, 0, 0] = Some 0x1234" by code_simp
  show ?thesis
    using header_only_reuses h v w
      reply_carries_query_id [OF header_only_reuses h, of True 9 example_addr "0x1234" 0 "''example.com''" 1 "Some ''{}''" 2]
    by simp
qed

subsection \<open>C5: the Checking-Disabled bit\<close>

lemma example_state_extra: "extra_request_args (app example_state) = []"
  by code_simp







subsection \<open>C6: a body that fails conversion\<close>

text \<open>
  C6. When the body is present, the context is live, the copy is allocated and the
  converter returns a length that is not positive, the handler sends no datagram; and
  unless the body has \<open>UINT_MAX\<close> bytes, where the converter is not reached, it logs
  \<^verbatim>\<open>Failed to decode JSON.\<close> at error level as its last line and the process keeps its
  status.
\<close>

theorem conversion_failure_no_reply:
  assumes "requests s p = Some req"
    and "fst (j (tx_id req) (c_str (take (unat buflen) body)) 1500) \<le> 0"
  shows "replies (https_resp_cb j True (Some p) (Some body) buflen s) = replies s \<and>
         (buflen + 1 \<noteq> 0 \<longrightarrow>
            logs (https_resp_cb j True (Some p) (Some body) buflen s) =
              logs s @ [(LOG_DEBUG, ''buflen %u'' @ [CHR 0x0A]),
                        (LOG_DEBUG, ''Received response for id %04x: %.*s''),
                        (LOG_ERROR, ''Failed to decode JSON.'')] \<and>
            status (https_resp_cb j True (Some p) (Some body) buflen s) = status s)"
proof (cases "buflen + 1 = 0")
  case True
  then show ?thesis by (simp add: https_resp_cb_wrap)
next
  case False
  obtain r out where j: "j (tx_id req) (c_str (take (unat buflen) body)) 1500 = (r, out)"
    by (cases "j (tx_id req) (c_str (take (unat buflen) body)) 1500")
  with assms(2) have "r \<le> 0" by simp
  from https_resp_cb_failed [of s p req buflen j body r out, OF assms(1) False j this] False
  show ?thesis by simp
qed

theorem conversion_failure_no_reply_witness:
  "requests example_pending 1 = Some \<lparr>tx_id = 0x1234, raddr = example_addr, dns_server = 9\<rparr> \<and>
   fst (header_only (tx_id \<lparr>tx_id = 0x1234, raddr = example_addr, dns_server = 9\<rparr>) (c_str (take (unat (0 :: 32 word)) [])) 1500) \<le> 0 \<and>
   replies (https_resp_cb header_only True (Some 1) (Some []) 0 example_pending) = [] \<and>
   last (logs (https_resp_cb header_only True (Some 1) (Some []) 0 example_pending)) =
     (LOG_ERROR, ''Failed to decode JSON.'') \<and>
   status (https_resp_cb header_only True (Some 1) (Some []) 0 example_pending) = Running"
proof -
  have h: "requests example_pending 1 = Some \<lparr>tx_id = 0x1234, raddr = example_addr, dns_server = 9\<rparr>"
    by code_simp
  have f: "fst (header_only (tx_id \<lparr>tx_id = 0x1234, raddr = example_addr, dns_server = 9\<rparr>) (c_str (take (unat (0 :: 32 word)) [])) 1500) \<le> 0"
    by code_simp
  have r: "replies example_pending = []" and st: "status example_pending = Running" by code_simp+
  show ?thesis
    using h f r st
      conversion_failure_no_reply [of example_pending 1 "\<lparr>tx_id = 0x1234, raddr = example_addr, dns_server = 9\<rparr>"
        header_only 0 "[]", OF h f]
    by simp
qed

subsection \<open>C7: which failures end the process\<close>


text \<open>
  Two more paths of the handlers end the process, with no guard in the code: a
  \<^verbatim>\<open>calloc\<close> of the \<^verbatim>\<open>request_t\<close> that fails (its result is stored through at line 105),
  and a body of \<open>UINT_MAX\<close> bytes (the size of the copy wraps to 0 at line 65).
\<close>

lemma dispatch_without_memory_crashes:
  "status (dns_server_cb False srv addr tx flags name type s) = Crashed"
  by (simp add: dns_server_cb_fail)

lemma body_of_uint_max_crashes:
  "status (https_resp_cb j True (Some p) (Some body) (- 1) s) = Crashed"
  by (simp add: https_resp_cb_wrap)



subsection \<open>C8: the poller's configuration\<close>

text \<open>
  C8. Whenever \<^verbatim>\<open>main\<close> gets as far as the event loop (the arguments parse and, when
  asked to run as a daemon, the group and user are set), it has created a poller with
  the configured bootstrap nameserver, the configured DoH hostname and a period of 120
  seconds. Every period of that poller asks the bootstrap nameserver for that
  hostname, gives the answer to \<open>dns_poll_cb\<close> and is followed by the next one 120
  seconds later; what any other name server would answer, the system's default among
  them, has no effect on it.
\<close>

theorem poller_configuration:
  assumes "parse_ok" and "\<not> daemonize opt \<or> (setgid_ok \<and> setuid_ok)"
  shows "\<exists>s0 poller. main parse_ok setgid_ok setuid_ok client opt = Inr (s0, poller) \<and>
     poller = \<lparr>poll_nameserver = bootstrap_dns opt, poll_hostname = http_dns_server opt, poll_interval = 120\<rparr> \<and>
     (\<forall>net now s. dns_poller_tick net poller now s =
        (now + 120,
         case net (bootstrap_dns opt) (http_dns_server opt) of
           None \<Rightarrow> WLOG ''DNS lookup failed'' s
         | Some a \<Rightarrow> dns_poll_cb a s)) \<and>
     (\<forall>net net' now s. net (bootstrap_dns opt) = net' (bootstrap_dns opt) \<longrightarrow>
        dns_poller_tick net poller now s = dns_poller_tick net' poller now s)"
  using assms by (auto simp: main_def dns_poller_init_def dns_poller_tick_def Let_def)

theorem poller_configuration_witness:
  "\<not> daemonize example_options \<and>
   snd (projr (main True False False 7 example_options)) =
     \<lparr>poll_nameserver = ''8.8.8.8'', poll_hostname = ''doh.example.org'', poll_interval = 120\<rparr> \<and>
   fst (dns_poller_tick example_net (snd (projr (main True False False 7 example_options))) 1000 example_state) = 1120 \<and>
   slist_contents
     (snd (dns_poller_tick example_net (snd (projr (main True False False 7 example_options))) 1000 example_state))
     (Some 1) = [''dns.google.com:443:8.8.4.4'']"
proof -
  have d: "\<not> daemonize example_options" by (simp add: example_options_def)
  then have "\<not> daemonize example_options \<or> (False \<and> False)" by simp
  from poller_configuration [OF TrueI this, of 7] obtain s0 poller where
    m: "main True False False 7 example_options = Inr (s0, poller)" and
    p: "poller = \<lparr>poll_nameserver = bootstrap_dns example_options,
                   poll_hostname = http_dns_server example_options, poll_interval = 120\<rparr>" and
    t: "\<forall>net now s. dns_poller_tick net poller now s =
        (now + 120,
         case net (bootstrap_dns example_options) (http_dns_server example_options) of
           None \<Rightarrow> WLOG ''DNS lookup failed'' s
         | Some a \<Rightarrow> dns_poll_cb a s)"
    by blast
  have n: "example_net (bootstrap_dns example_options) (http_dns_server example_options) = Some [8, 8, 4, 4]"
    by code_simp
  have c: "slist_contents (dns_poll_cb [8, 8, 4, 4] example_state) (Some 1) = [''dns.google.com:443:8.8.4.4'']"
    by code_simp
  from m p have q: "snd (projr (main True False False 7 example_options)) =
     \<lparr>poll_nameserver = ''8.8.8.8'', poll_hostname = ''doh.example.org'', poll_interval = 120\<rparr>"
    by (simp add: example_options_def)
  from t [rule_format, of example_net 1000 example_state] n c m
  have "fst (dns_poller_tick example_net (snd (projr (main True False False 7 example_options))) 1000 example_state) = 1120"
    and "slist_contents
     (snd (dns_poller_tick example_net (snd (projr (main True False False 7 example_options))) 1000 example_state))
     (Some 1) = [''dns.google.com:443:8.8.4.4'']"
    by simp_all
  with d q show ?thesis by simp
qed

subsection \<open>C9: before the first resolution\<close>

text \<open>
  C9. From the state in which the loop starts, and as long as the poller has delivered
  no address, the field \<open>resolv\<close> is NULL and every fetch issued was given the NULL
  pointer: no address is pinned.
\<close>

theorem no_override_before_first_resolution:
  assumes "main parse_ok setgid_ok setuid_ok client opt = Inr (s0, poller)"
    and "\<not> list_ex is_Resolved evs"
  shows "resolv (app (ev_run j evs s0)) = None \<and>
     list_all (\<lambda>f. f_resolv f = None \<and> f_pinned f = []) (fetches (ev_run j evs s0))"
proof -
  from main_Inr(1) [OF assms(1)]
  have i: "resolv (app s0) = None" "fetches s0 = []" "slist_contents s0 None = []"
    by (simp_all add: slist_contents_def)
  from ev_run_fetches [OF assms(2), of j s0] i show ?thesis
    by (auto simp: list_all_iff)
qed

theorem no_override_before_first_resolution_witness:
  "main True True True 7 example_options =
     Inr (example_state, \<lparr>poll_nameserver = ''8.8.8.8'', poll_hostname = ''doh.example.org'', poll_interval = 120\<rparr>) \<and>
   \<not> list_ex is_Resolved
      [Query True 9 example_addr 0x1234 0 ''example.com'' 1, Completion True (Some 1) (Some ''{}'') 2,
       Query True 9 example_addr 0x1235 0x10 ''example.org'' 28] \<and>
   resolv (app (ev_run header_only
      [Query True 9 example_addr 0x1234 0 ''example.com'' 1, Completion True (Some 1) (Some ''{}'') 2,
       Query True 9 example_addr 0x1235 0x10 ''example.org'' 28] example_state)) = None \<and>
   list_all (\<lambda>f. f_resolv f = None \<and> f_pinned f = []) (fetches (ev_run header_only
      [Query True 9 example_addr 0x1234 0 ''example.com'' 1, Completion True (Some 1) (Some ''{}'') 2,
       Query True 9 example_addr 0x1235 0x10 ''example.org'' 28] example_state)) \<and>
   length (fetches (ev_run header_only
      [Query True 9 example_addr 0x1234 0 ''example.com'' 1, Completion True (Some 1) (Some ''{}'') 2,
       Query True 9 example_addr 0x1235 0x10 ''example.org'' 28] example_state)) = 2"
proof -
  have h: "\<not> list_ex is_Resolved
      [Query True 9 example_addr 0x1234 0 ''example.com'' 1, Completion True (Some 1) (Some ''{}'') 2,
       Query True 9 example_addr 0x1235 0x10 ''example.org'' 28]" by simp
  have n: "length (fetches (ev_run header_only
      [Query True 9 example_addr 0x1234 0 ''example.com'' 1, Completion True (Some 1) (Some ''{}'') 2,
       Query True 9 example_addr 0x1235 0x10 ''example.org'' 28] example_state)) = 2"
    by code_simp
  show ?thesis
    using main_example h n no_override_before_first_resolution [OF main_example h, of header_only]
    by simp
qed

subsection \<open>C10: the URL is cut, not refused\<close>

text \<open>
  C10. For every query whose \<^verbatim>\<open>request_t\<close> is allocated, the URL given to the dispatcher
  is the formatted text cut to its first 1498 characters; its length is the smaller of
  1498 and the length of the text. However long the name, exactly one fetch is issued,
  the process keeps its status, and the only line logged is the debug line of the
  request: no error, no query dropped.
\<close>

theorem url_truncated:
  "f_url (last (fetches (dns_server_cb True srv addr tx flags name type s))) =
     take 1498 (''https://dns.google.com/resolve?name='' @ curl_escape name @ ''&type='' @ fmt_d type @
                (if bit flags 4 then ''&cd=true'' else []) @ extra_request_args (app s)) \<and>
   length (f_url (last (fetches (dns_server_cb True srv addr tx flags name type s)))) =
     min 1498 (length (''https://dns.google.com/resolve?name='' @ curl_escape name @ ''&type='' @ fmt_d type @
                (if bit flags 4 then ''&cd=true'' else []) @ extra_request_args (app s))) \<and>
   length (fetches (dns_server_cb True srv addr tx flags name type s)) = Suc (length (fetches s)) \<and>
   status (dns_server_cb True srv addr tx flags name type s) = status s \<and>
   logs (dns_server_cb True srv addr tx flags name type s) =
     logs s @ [(LOG_DEBUG, ''Received request for '%s' id: %04x, type %d, flags %04x'')]"
proof -
  have u: "f_url (last (fetches (dns_server_cb True srv addr tx flags name type s))) =
     take 1498 (''https://dns.google.com/resolve?name='' @ curl_escape name @ ''&type='' @ fmt_d type @
                (if bit flags 4 then ''&cd=true'' else []) @ extra_request_args (app s))"
    by (simp only: dns_server_cb_ok build_url_eq) simp
  have l: "length (f_url (last (fetches (dns_server_cb True srv addr tx flags name type s)))) =
     min 1498 (length (''https://dns.google.com/resolve?name='' @ curl_escape name @ ''&type='' @ fmt_d type @
                (if bit flags 4 then ''&cd=true'' else []) @ extra_request_args (app s)))"
    unfolding u by (simp only: length_take min.commute)
  have r: "length (fetches (dns_server_cb True srv addr tx flags name type s)) = Suc (length (fetches s))"
      "status (dns_server_cb True srv addr tx flags name type s) = status s"
      "logs (dns_server_cb True srv addr tx flags name type s) =
         logs s @ [(LOG_DEBUG, ''Received request for '%s' id: %04x, type %d, flags %04x'')]"
    by (simp_all add: dns_server_cb_ok)
  from u l r show ?thesis by (intro conjI)
qed

theorem url_truncated_witness:
  "length (''https://dns.google.com/resolve?name='' @ curl_escape (replicate 1500 CHR ''a'') @ ''&type='' @ fmt_d 1 @
           (if bit (0x10 :: u16) 4 then ''&cd=true'' else []) @ extra_request_args (app example_state)) = 1551 \<and>
   length (f_url (last (fetches (dns_server_cb True 9 example_addr 0x1234 0x10 (replicate 1500 CHR ''a'') 1 example_state)))) = 1498 \<and>
   length (fetches (dns_server_cb True 9 example_addr 0x1234 0x10 (replicate 1500 CHR ''a'') 1 example_state)) = 1 \<and>
   status (dns_server_cb True 9 example_addr 0x1234 0x10 (replicate 1500 CHR ''a'') 1 example_state) = Running"
proof -
  have d: "fmt_d 1 = ''1''" by code_simp
  have f: "fetches example_state = []" and st: "status example_state = Running" by code_simp+
  have len: "length (''https://dns.google.com/resolve?name='' @ curl_escape (replicate 1500 CHR ''a'') @ ''&type='' @ fmt_d 1 @
           (if bit (0x10 :: u16) 4 then ''&cd=true'' else []) @ extra_request_args (app example_state)) = 1551"
    by (simp add: curl_escape_replicate_a d example_state_extra)
  show ?thesis
    using url_truncated [of 9 example_addr "0x1234" "0x10" "replicate 1500 CHR ''a''" 1 example_state] len f st
    by simp
qed

end
